theory Spec2Isabelle
  imports Complex_Main "HOL-Library.Sublist"
begin

section \<open>Python values, exceptions and strings\<close>

text \<open>
  The classifier service (\<^verbatim>\<open>src/classifier/classifier.py\<close>) handles dynamically typed
  values: whatever \<^verbatim>\<open>json.loads\<close> returns, and the dictionaries built from it. A Python
  \<^verbatim>\<open>float\<close> is modelled by the real number it denotes (rounding and the non-finite
  values are outside the model), a \<^verbatim>\<open>dict\<close> with string keys by an association list
  read with \<open>map_of\<close>, a \<^verbatim>\<open>str\<close> by a \<open>string\<close> whose characters are the code points
  below 256. Where the source assigns a variable again, the model numbers the values
  (\<open>tags0\<close>, \<open>tags1\<close>); the field \<^verbatim>\<open>text\<close> of the request is \<open>req_text\<close>.
\<close>

datatype pyval =
    PNone
  | PBool bool
  | PInt int
  | PFloat real
  | PStr string
  | PList "pyval list"
  | PDict "(string \<times> pyval) list"

text \<open>
  Every exception of the model is a subclass of Python's \<^verbatim>\<open>Exception\<close>, FastAPI's
  \<^verbatim>\<open>HTTPException\<close> included, so an \<^verbatim>\<open>except Exception\<close> clause catches each of them.
  \<open>ClientError\<close> stands for whatever the client libraries raise (transport errors,
  timeouts, a reply without content).
\<close>

datatype exn =
    HTTPException nat string
  | RuntimeError string
  | ValueError string
  | AttributeError string
  | TypeError string
  | KeyError string
  | ValidationError string
  | ClientError string

definition bind_exn :: "exn + 'a \<Rightarrow> ('a \<Rightarrow> exn + 'b) \<Rightarrow> exn + 'b" where
  "bind_exn r f = (case r of Inl e \<Rightarrow> Inl e | Inr v \<Rightarrow> f v)"

text \<open>\<^verbatim>\<open>str.isspace\<close> on the code points below 256; the pattern \<^verbatim>\<open>\s\<close> of \<^verbatim>\<open>re\<close> agrees with it.\<close>

definition isspace :: "char \<Rightarrow> bool" where
  "isspace c = (of_char c \<in> {9, 10, 11, 12, 13, 28, 29, 30, 31, 32, 133, 160 :: nat})"

definition lstrip :: "string \<Rightarrow> string" where
  "lstrip s = dropWhile isspace s"

definition rstrip :: "string \<Rightarrow> string" where
  "rstrip s = rev (dropWhile isspace (rev s))"

text \<open>\<^verbatim>\<open>text.strip()\<close>\<close>

definition strip :: "string \<Rightarrow> string" where
  "strip s = rstrip (lstrip s)"

text \<open>
  \<^verbatim>\<open>text.split()\<close>: the maximal runs of characters that are not whitespace, in order.
  The first argument is the run read so far.
\<close>

fun split_from :: "string \<Rightarrow> string \<Rightarrow> string list" where
  "split_from w [] = (if w = [] then [] else [w])"
| "split_from w (c # cs) =
     (if isspace c then (if w = [] then split_from [] cs else w # split_from [] cs)
      else split_from (w @ [c]) cs)"

definition str_split :: "string \<Rightarrow> string list" where
  "str_split s = split_from [] s"

text \<open>\<^verbatim>\<open>sep.join(xs)\<close>\<close>

fun str_join :: "string \<Rightarrow> string list \<Rightarrow> string" where
  "str_join sep [] = []"
| "str_join sep [x] = x"
| "str_join sep (x # y # ys) = x @ sep @ str_join sep (y # ys)"

text \<open>\<^verbatim>\<open>obj[key]\<close> with a string key: only a dictionary can be read that way.\<close>

definition getitem :: "pyval \<Rightarrow> string \<Rightarrow> exn + pyval" where
  "getitem obj k =
     (case obj of
        PDict d \<Rightarrow> (case map_of d k of None \<Rightarrow> Inl (KeyError k) | Some v \<Rightarrow> Inr v)
      | _ \<Rightarrow> Inl (TypeError ''subscript''))"

text \<open>
  \<^verbatim>\<open>obj.setdefault(key, default)\<close>, returning the object after the call: a dictionary
  gains the key when it lacks it; no other value of \<^verbatim>\<open>json.loads\<close> has the method.
\<close>

definition setdefault :: "pyval \<Rightarrow> string \<Rightarrow> pyval \<Rightarrow> exn + pyval" where
  "setdefault obj k v =
     (case obj of
        PDict d \<Rightarrow> (case map_of d k of None \<Rightarrow> Inr (PDict (d @ [(k, v)])) | Some _ \<Rightarrow> Inr obj)
      | _ \<Rightarrow> Inl (AttributeError ''setdefault''))"

text \<open>\<^verbatim>\<open>value < bound\<close> for a float bound: numbers and booleans compare, nothing else does.\<close>

definition py_lt :: "pyval \<Rightarrow> real \<Rightarrow> exn + bool" where
  "py_lt v bound =
     (case v of
        PFloat r \<Rightarrow> Inr (r < bound)
      | PInt i \<Rightarrow> Inr (real_of_int i < bound)
      | PBool b \<Rightarrow> Inr ((if b then 1 else 0) < bound)
      | _ \<Rightarrow> Inl (TypeError ''<''))"

section \<open>The request and response models\<close>

record ClassifyRequest =
  req_text :: string
  source :: "string option"
  filepath :: "string option"
  force_local :: bool
  force_api :: bool

record ClassifyResponse =
  tags :: "string list"
  summary :: string
  confidence :: real
  model :: string
  fallback_used :: bool

section \<open>The degraded responder\<close>

definition heuristic_fallback :: "string \<Rightarrow> pyval" where
  "heuristic_fallback text =
     (let words = str_split text;
          word_count = length words;
          tags0 = [''uncategorized'', ''transcript'', ''unclassified''];
          tags1 = (if word_count < 100 then tags0 @ [''short'']
                   else if word_count > 1000 then tags0 @ [''long'']
                   else tags0);
          summary0 = str_join '' '' (take (min 50 word_count) words);
          summary1 = (if word_count > 50 then summary0 @ ''...'' else summary0)
      in PDict [(''tags'', PList (map PStr (take 7 tags1))),
                (''summary'', PStr summary1),
                (''confidence'', PFloat 0.3)])"

section \<open>The response extractor\<close>

text \<open>The fence marker: three backquotes (code point 96).\<close>

definition fence :: string where
  "fence = replicate 3 (CHR 0x60)"

text \<open>
  \<^verbatim>\<open>re.search\<close> with the pattern \<^verbatim>\<open>FENCE(?:json)?\s*(\{.*?\})\s*FENCE\<close> under
  \<^verbatim>\<open>re.DOTALL\<close>, returning group 1; \<^verbatim>\<open>FENCE\<close> stands for the three backquotes of the
  source's pattern. The matcher backtracks in the order of the
  pattern: start positions from the left; at a start the tag \<^verbatim>\<open>json\<close> is tried before
  its absence; the lazy \<^verbatim>\<open>.*?\<close> grows one character at a time, over any character.
  A greedy \<^verbatim>\<open>\s*\<close> takes the whole run of whitespace: the character the pattern wants
  next (a brace, a backquote) is not whitespace, so giving characters back never helps.

  \<open>lazy_body acc cs\<close> is the matcher inside the group, \<open>acc\<close> being the part of the
  group already read.
\<close>

fun lazy_body :: "string \<Rightarrow> string \<Rightarrow> string option" where
  "lazy_body acc [] = None"
| "lazy_body acc (c # cs) =
     (if c = CHR ''}'' \<and> prefix fence (dropWhile isspace cs) then Some (acc @ [c])
      else lazy_body (acc @ [c]) cs)"

definition after_tag :: "string \<Rightarrow> string option" where
  "after_tag s =
     (case dropWhile isspace s of
        [] \<Rightarrow> None
      | c # cs \<Rightarrow> if c = CHR ''{'' then lazy_body [c] cs else None)"

definition match_here :: "string \<Rightarrow> string option" where
  "match_here s =
     (if prefix fence s then
        (let r = drop 3 s in
         case (if prefix ''json'' r then after_tag (drop 4 r) else None) of
           Some g \<Rightarrow> Some g
         | None \<Rightarrow> after_tag r)
      else None)"

fun re_search :: "string \<Rightarrow> string option" where
  "re_search [] = None"
| "re_search (c # cs) =
     (case match_here (c # cs) of Some g \<Rightarrow> Some g | None \<Rightarrow> re_search cs)"

text \<open>
  \<^verbatim>\<open>re.sub\<close> of \<^verbatim>\<open>^FENCE(?:json)?\s*\<close> by the empty string: without
  \<^verbatim>\<open>re.MULTILINE\<close> the anchor matches at the start only.
\<close>

definition sub_leading_fence :: "string \<Rightarrow> string" where
  "sub_leading_fence s =
     (if prefix fence s then
        (let r = drop 3 s;
             r' = (if prefix ''json'' r then drop 4 r else r)
         in dropWhile isspace r')
      else s)"

text \<open>
  \<^verbatim>\<open>re.sub\<close> of \<^verbatim>\<open>\s*FENCE$\<close> by the empty string: \<^verbatim>\<open>$\<close> matches at the end of the
  string and before a newline that ends it; the leftmost match starts where the run of
  whitespace before the fence starts.
\<close>

definition sub_trailing_fence :: "string \<Rightarrow> string" where
  "sub_trailing_fence s =
     (if suffix fence s then rstrip (take (length s - 3) s)
      else if suffix (fence @ ''\<newline>'') s then rstrip (take (length s - 4) s) @ ''\<newline>''
      else s)"

text \<open>Lines 59 to 66 of \<^verbatim>\<open>parse_json_response\<close>: the string handed to \<^verbatim>\<open>json.loads\<close>.\<close>

definition normalize :: "string \<Rightarrow> string" where
  "normalize text =
     (let text1 = strip text;
          text2 = (case re_search text1 of Some g \<Rightarrow> g | None \<Rightarrow> text1);
          text3 = sub_leading_fence text2
      in sub_trailing_fence text3)"

text \<open>
  Lines 68 to 71. \<^verbatim>\<open>json.loads\<close> is the standard library's decoder, a parameter of the
  model: it returns the decoded value, or the message of the \<^verbatim>\<open>JSONDecodeError\<close> it
  raises, which becomes a \<^verbatim>\<open>ValueError\<close> that quotes it.
\<close>

definition loads_or_raise :: "(string \<Rightarrow> string + pyval) \<Rightarrow> string \<Rightarrow> exn + pyval" where
  "loads_or_raise loads s =
     (case loads s of
        Inl e \<Rightarrow> Inl (ValueError (''Failed to parse JSON: '' @ e))
      | Inr v \<Rightarrow> Inr v)"

definition parse_json_response :: "(string \<Rightarrow> string + pyval) \<Rightarrow> string \<Rightarrow> exn + pyval" where
  "parse_json_response loads text = loads_or_raise loads (normalize text)"

section \<open>The process environment and the backend adapters\<close>

datatype backend = LocalVLLM | AnthropicAPI

text \<open>
  What a request does to the outside world: \<open>Invoked b\<close> when the adapter of backend \<open>b\<close>
  is entered, \<open>Sent b msg\<close> when it sends the user message \<open>msg\<close> over the network.
\<close>

datatype event = Invoked backend | Sent backend string

text \<open>
  A configured client: given the events so far and the user message, the text of the
  backend's reply or the exception raised by the call (lines 102 to 112, 127 to 136). The
  system prompt, the model name and the sampling parameters are constants of the call.
  The reply may depend on the history, so a second call can differ from the first.
\<close>

type_synonym client = "event list \<Rightarrow> string \<Rightarrow> exn + string"

text \<open>
  The module's globals and the libraries it calls: the configuration read at start-up,
  the two clients (\<open>None\<close> when not configured), \<^verbatim>\<open>json.loads\<close>, and the coercions of
  pydantic for the field types \<^verbatim>\<open>List[str]\<close>, \<^verbatim>\<open>str\<close> and \<^verbatim>\<open>float\<close> (\<open>None\<close> when the
  value is refused).
\<close>

record env =
  LOCAL_MODEL :: string
  USE_LOCAL_FIRST :: bool
  local_client :: "client option"
  anthropic_client :: "client option"
  json_loads :: "string \<Rightarrow> string + pyval"
  list_str_field :: "pyval \<Rightarrow> string list option"
  str_field :: "pyval \<Rightarrow> string option"
  float_field :: "pyval \<Rightarrow> real option"

definition CLAUDE_MODEL :: string where
  "CLAUDE_MODEL = ''claude-3-5-sonnet-20241022''"

definition user_message :: "string \<Rightarrow> string" where
  "user_message text = ''Classify this transcript:\<newline>\<newline>'' @ take 4000 text"

text \<open>Lines 113 to 119 (and 137 to 143): decode the reply, fill in the absent keys.\<close>

definition decode_reply :: "env \<Rightarrow> string \<Rightarrow> exn + pyval" where
  "decode_reply E content =
     bind_exn (parse_json_response (json_loads E) content) (\<lambda>result.
     bind_exn (setdefault result ''tags'' (PList [])) (\<lambda>result.
     bind_exn (setdefault result ''summary'' (PStr [])) (\<lambda>result.
     setdefault result ''confidence'' (PFloat 0.5))))"

definition classify_with_local :: "env \<Rightarrow> string \<Rightarrow> event list \<Rightarrow> (exn + pyval) \<times> event list" where
  "classify_with_local E text tr =
     (let tr1 = tr @ [Invoked LocalVLLM] in
      case local_client E of
        None \<Rightarrow> (Inl (RuntimeError ''Local vLLM not configured''), tr1)
      | Some client \<Rightarrow>
          (let tr2 = tr1 @ [Sent LocalVLLM (user_message text)] in
           case client tr1 (user_message text) of
             Inl e \<Rightarrow> (Inl e, tr2)
           | Inr content \<Rightarrow> (decode_reply E content, tr2)))"

definition classify_with_api :: "env \<Rightarrow> string \<Rightarrow> event list \<Rightarrow> (exn + pyval) \<times> event list" where
  "classify_with_api E text tr =
     (let tr1 = tr @ [Invoked AnthropicAPI] in
      case anthropic_client E of
        None \<Rightarrow> (Inl (RuntimeError ''Anthropic API not configured''), tr1)
      | Some client \<Rightarrow>
          (let tr2 = tr1 @ [Sent AnthropicAPI (user_message text)] in
           case client tr1 (user_message text) of
             Inl e \<Rightarrow> (Inl e, tr2)
           | Inr content \<Rightarrow> (decode_reply E content, tr2)))"

section \<open>The fallback controller\<close>

text \<open>
  The constructor of \<^verbatim>\<open>ClassifyResponse\<close>: pydantic coerces the three fields taken from
  the result and raises its validation error when one is refused. The model name and the
  flag are a \<^verbatim>\<open>str\<close> and a \<^verbatim>\<open>bool\<close> of the code's own.
\<close>

definition new_ClassifyResponse ::
  "env \<Rightarrow> pyval \<Rightarrow> pyval \<Rightarrow> pyval \<Rightarrow> string \<Rightarrow> bool \<Rightarrow> exn + ClassifyResponse" where
  "new_ClassifyResponse E t s c m f =
     (case (list_str_field E t, str_field E s, float_field E c) of
        (Some t', Some s', Some c') \<Rightarrow>
          Inr \<lparr>tags = t', summary = s', confidence = c', model = m, fallback_used = f\<rparr>
      | _ \<Rightarrow> Inl (ValidationError ''ClassifyResponse''))"

text \<open>Lines 212 to 218: the return statement, outside the \<^verbatim>\<open>try\<close>.\<close>

definition respond :: "env \<Rightarrow> pyval \<Rightarrow> string \<Rightarrow> bool \<Rightarrow> exn + ClassifyResponse" where
  "respond E result model_used fallback =
     bind_exn (getitem result ''tags'') (\<lambda>t.
     bind_exn (getitem result ''summary'') (\<lambda>s.
     bind_exn (getitem result ''confidence'') (\<lambda>c.
     new_ClassifyResponse E t s c model_used fallback)))"

text \<open>
  The values of \<^verbatim>\<open>result\<close>, \<^verbatim>\<open>model_used\<close> and \<^verbatim>\<open>fallback_used\<close> when a block ends
  normally, or the exception that leaves it; with the events so far.
\<close>

type_synonym attempt = "(exn + pyval \<times> string \<times> bool) \<times> event list"

text \<open>Lines 192 to 198: the handler of the inner \<^verbatim>\<open>try\<close>, entered with exception \<open>e\<close>.\<close>

definition inner_except :: "env \<Rightarrow> string \<Rightarrow> exn \<Rightarrow> event list \<Rightarrow> attempt" where
  "inner_except E text e tr =
     (if anthropic_client E \<noteq> None then
        (case classify_with_api E text tr of
           (Inl e', tr') \<Rightarrow> (Inl e', tr')
         | (Inr result, tr') \<Rightarrow> (Inr (result, CLAUDE_MODEL, True), tr'))
      else (Inl e, tr))"

text \<open>Lines 184 to 198: the inner \<^verbatim>\<open>try\<close> with its handler.\<close>

definition local_first :: "env \<Rightarrow> string \<Rightarrow> event list \<Rightarrow> attempt" where
  "local_first E text tr =
     (case classify_with_local E text tr of
        (Inl e, tr1) \<Rightarrow> inner_except E text e tr1
      | (Inr result, tr1) \<Rightarrow>
          (case bind_exn (getitem result ''confidence'') (\<lambda>c. py_lt c 0.7) of
             Inl e \<Rightarrow> inner_except E text e tr1
           | Inr low \<Rightarrow>
               if low \<and> anthropic_client E \<noteq> None then
                 (case classify_with_api E text tr1 of
                    (Inl e, tr2) \<Rightarrow> inner_except E text e tr2
                  | (Inr result2, tr2) \<Rightarrow> (Inr (result2, CLAUDE_MODEL, True), tr2))
               else (Inr (result, LOCAL_MODEL E, False), tr1)))"

text \<open>Lines 177 to 206: the body of the outer \<^verbatim>\<open>try\<close>.\<close>

definition try_body :: "env \<Rightarrow> ClassifyRequest \<Rightarrow> event list \<Rightarrow> attempt" where
  "try_body E request tr =
     (if force_api request then
        (case classify_with_api E (req_text request) tr of
           (Inl e, tr') \<Rightarrow> (Inl e, tr')
         | (Inr result, tr') \<Rightarrow> (Inr (result, CLAUDE_MODEL, False), tr'))
      else if force_local request then
        (case classify_with_local E (req_text request) tr of
           (Inl e, tr') \<Rightarrow> (Inl e, tr')
         | (Inr result, tr') \<Rightarrow> (Inr (result, LOCAL_MODEL E, False), tr'))
      else if USE_LOCAL_FIRST E \<and> local_client E \<noteq> None then
        local_first E (req_text request) tr
      else if anthropic_client E \<noteq> None then
        (case classify_with_api E (req_text request) tr of
           (Inl e, tr') \<Rightarrow> (Inl e, tr')
         | (Inr result, tr') \<Rightarrow> (Inr (result, CLAUDE_MODEL, False), tr'))
      else (Inl (HTTPException 503 ''No classification backend configured''), tr))"

text \<open>
  The endpoint \<^verbatim>\<open>classify\<close>: what the caller gets (a response, or the exception that
  leaves the handler) and the events of the request.
\<close>

definition classify :: "env \<Rightarrow> ClassifyRequest \<Rightarrow> (exn + ClassifyResponse) \<times> event list" where
  "classify E request =
     (if req_text request = [] \<or> strip (req_text request) = [] then
        (Inl (HTTPException 400 ''Text cannot be empty''), [])
      else
        (case try_body E request [] of
           (Inl e, tr) \<Rightarrow> (respond E (heuristic_fallback (req_text request)) ''heuristic'' True, tr)
         | (Inr (result, model_used, fallback), tr) \<Rightarrow> (respond E result model_used fallback, tr)))"

section \<open>Specification-level notions and sample environments\<close>

text \<open>
  The degraded responder's result as the caller sees it, in the words of the
  specification: base tags plus \<open>short\<close> or \<open>long\<close> by token count, the first 50 tokens as
  summary, confidence 0.3, producer \<open>heuristic\<close>, fallback flag set.
\<close>

definition degraded_outcome :: "string \<Rightarrow> ClassifyResponse" where
  "degraded_outcome text =
     \<lparr>tags = [''uncategorized'', ''transcript'', ''unclassified'']
              @ (if length (str_split text) < 100 then [''short''] else [])
              @ (if 1000 < length (str_split text) then [''long''] else []),
      summary = str_join '' '' (take 50 (str_split text))
              @ (if 50 < length (str_split text) then ''...'' else []),
      confidence = 0.3,
      model = ''heuristic'',
      fallback_used = True\<rparr>"

text \<open>
  What the theorems need of pydantic: a list of strings, a string and a float pass the
  fields \<^verbatim>\<open>List[str]\<close>, \<^verbatim>\<open>str\<close> and \<^verbatim>\<open>float\<close> unchanged. How other values are coerced
  or refused is left open.
\<close>

definition pydantic_typed :: "env \<Rightarrow> bool" where
  "pydantic_typed E \<longleftrightarrow>
     (\<forall>ts. list_str_field E (PList (map PStr ts)) = Some ts) \<and>
     (\<forall>s. str_field E (PStr s) = Some s) \<and>
     (\<forall>r. float_field E (PFloat r) = Some r)"









definition is_dict :: "pyval \<Rightarrow> bool" where
  "is_dict v = (case v of PDict _ \<Rightarrow> True | _ \<Rightarrow> False)"

text \<open>How often the adapter of a backend was entered, and whether a backend was touched at all.\<close>

definition invocations :: "backend \<Rightarrow> event list \<Rightarrow> nat" where
  "invocations b tr = length (filter (\<lambda>ev. ev = Invoked b) tr)"

fun backend_of :: "event \<Rightarrow> backend" where
  "backend_of (Invoked b) = b"
| "backend_of (Sent b msg) = b"

definition touches :: "backend \<Rightarrow> event list \<Rightarrow> bool" where
  "touches b tr = list_ex (\<lambda>ev. backend_of ev = b) tr"

text \<open>An instance of the coercions for running examples: it accepts the typed values only.\<close>

fun all_strs :: "pyval list \<Rightarrow> string list option" where
  "all_strs [] = Some []"
| "all_strs (PStr s # vs) = (case all_strs vs of None \<Rightarrow> None | Some ss \<Rightarrow> Some (s # ss))"
| "all_strs (_ # vs) = None"

definition typed_list_str :: "pyval \<Rightarrow> string list option" where
  "typed_list_str v = (case v of PList vs \<Rightarrow> all_strs vs | _ \<Rightarrow> None)"

definition typed_str :: "pyval \<Rightarrow> string option" where
  "typed_str v = (case v of PStr s \<Rightarrow> Some s | _ \<Rightarrow> None)"

definition typed_float :: "pyval \<Rightarrow> real option" where
  "typed_float v = (case v of PFloat r \<Rightarrow> Some r | PInt i \<Rightarrow> Some (real_of_int i) | _ \<Rightarrow> None)"

text \<open>A decoder for running examples: the documents it knows, as \<^verbatim>\<open>json.loads\<close> reads them.\<close>

definition sample_documents :: "(string \<times> pyval) list" where
  \<open>sample_documents =
     [(''{"tags":["a"],"summary":"s","confidence":0.9}'',
         PDict [(''tags'', PList [PStr ''a'']), (''summary'', PStr ''s''), (''confidence'', PFloat 0.9)]),
      (''{"tags":["b"],"summary":"t","confidence":0.4}'',
         PDict [(''tags'', PList [PStr ''b'']), (''summary'', PStr ''t''), (''confidence'', PFloat 0.4)]),
      (''{"tags":[],"summary":"s","confidence":1.5}'',
         PDict [(''tags'', PList []), (''summary'', PStr ''s''), (''confidence'', PFloat 1.5)]),
      (''[1, 2]'', PList [PInt 1, PInt 2])]\<close>

definition sample_loads :: "string \<Rightarrow> string + pyval" where
  "sample_loads s =
     (case map_of sample_documents s of None \<Rightarrow> Inl ''Expecting value'' | Some v \<Rightarrow> Inr v)"

definition sample_env :: "bool \<Rightarrow> client option \<Rightarrow> client option \<Rightarrow> env" where
  "sample_env first lc ac =
     \<lparr>LOCAL_MODEL = ''Qwen/Qwen2.5-14B-Instruct-AWQ'', USE_LOCAL_FIRST = first,
      local_client = lc, anthropic_client = ac, json_loads = sample_loads,
      list_str_field = typed_list_str, str_field = typed_str, float_field = typed_float\<rparr>"

text \<open>Clients for running examples: one that always replies, one that always fails.\<close>

definition replies :: "string \<Rightarrow> client" where
  "replies content = (\<lambda>tr msg. Inr content)"

definition fails :: "exn \<Rightarrow> client" where
  "fails e = (\<lambda>tr msg. Inl e)"

text \<open>A remote client whose call fails until a message has been sent to it once.\<close>

definition fails_once :: "exn \<Rightarrow> string \<Rightarrow> client" where
  "fails_once e content =
     (\<lambda>tr msg. if Sent AnthropicAPI msg \<in> set tr then Inr content else Inl e)"

definition good_reply :: string where
  \<open>good_reply = ''{"tags":["a"],"summary":"s","confidence":0.9}''\<close>

definition low_reply :: string where
  \<open>low_reply = ''{"tags":["b"],"summary":"t","confidence":0.4}''\<close>


definition fenced_array_reply :: string where
  "fenced_array_reply = fence @ ''json\<newline>[1, 2]\<newline>'' @ fence"



definition plain_request :: "string \<Rightarrow> bool \<Rightarrow> bool \<Rightarrow> ClassifyRequest" where
  "plain_request text fl fa =
     \<lparr>req_text = text, source = None, filepath = None, force_local = fl, force_api = fa\<rparr>"

section \<open>Helper lemmas\<close>

subsection \<open>Blank texts, responses and traces\<close>

lemma rstrip_Nil_iff: "rstrip s = [] \<longleftrightarrow> list_all isspace s"
  by (simp add: rstrip_def dropWhile_eq_Nil_conv list_all_iff)

lemma all_space_dropWhile: "list_all isspace (dropWhile isspace s) \<longleftrightarrow> list_all isspace s"
proof (cases "dropWhile isspace s")
  case Nil
  then have "\<forall>x\<in>set s. isspace x" by (simp add: dropWhile_eq_Nil_conv)
  then show ?thesis unfolding Nil by (simp add: list_all_iff)
next
  case (Cons c cs)
  then have "\<not> isspace c" using hd_dropWhile[of isspace s] by auto
  moreover have "c \<in> set s" using Cons set_dropWhileD[of c isspace s] by simp
  ultimately show ?thesis using Cons by (auto simp: list_all_iff)
qed

lemma strip_Nil_iff: "strip s = [] \<longleftrightarrow> list_all isspace s"
  by (simp add: strip_def rstrip_Nil_iff lstrip_def all_space_dropWhile)

lemma blank_iff: "(s = [] \<or> strip s = []) \<longleftrightarrow> list_all isspace s"
  by (auto simp: strip_Nil_iff)


lemma all_strs_map: "all_strs (map PStr ts) = Some ts"
  by (induction ts) simp_all

lemma sample_typed: "pydantic_typed (sample_env first lc ac)"
  by (simp add: pydantic_typed_def sample_env_def typed_list_str_def typed_str_def typed_float_def all_strs_map)

lemma classify_with_api_trace:
  "snd (classify_with_api E text tr) =
     tr @ Invoked AnthropicAPI #
       (case anthropic_client E of None \<Rightarrow> [] | Some c \<Rightarrow> [Sent AnthropicAPI (user_message text)])"
  by (simp add: classify_with_api_def Let_def split: option.splits sum.splits)

lemma classify_with_local_trace:
  "snd (classify_with_local E text tr) =
     tr @ Invoked LocalVLLM #
       (case local_client E of None \<Rightarrow> [] | Some c \<Rightarrow> [Sent LocalVLLM (user_message text)])"
  by (simp add: classify_with_local_def Let_def split: option.splits sum.splits)

lemma classify_blank:
  "list_all isspace (req_text request) \<Longrightarrow>
     classify E request = (Inl (HTTPException 400 ''Text cannot be empty''), [])"
  by (simp add: classify_def blank_iff)

lemma classify_nonblank:
  "\<not> list_all isspace (req_text request) \<Longrightarrow>
     classify E request =
       (case try_body E request [] of
           (Inl e, tr) \<Rightarrow> (respond E (heuristic_fallback (req_text request)) ''heuristic'' True, tr)
         | (Inr (result, model_used, fallback), tr) \<Rightarrow> (respond E result model_used fallback, tr))"
  by (simp add: classify_def blank_iff)

lemma try_body_force_api:
  "force_api request \<Longrightarrow>
     try_body E request tr =
       (case classify_with_api E (req_text request) tr of
           (Inl e, tr') \<Rightarrow> (Inl e, tr')
         | (Inr result, tr') \<Rightarrow> (Inr (result, CLAUDE_MODEL, False), tr'))"
  by (simp add: try_body_def)

lemma heuristic_fallback_value:
  "heuristic_fallback text =
     PDict [(''tags'', PList (map PStr (tags (degraded_outcome text)))),
            (''summary'', PStr (summary (degraded_outcome text))),
            (''confidence'', PFloat 0.3)]"
  by (simp add: heuristic_fallback_def degraded_outcome_def Let_def min_def)

lemma respond_heuristic:
  assumes "pydantic_typed E"
  shows "respond E (heuristic_fallback text) ''heuristic'' True = Inr (degraded_outcome text)"
proof -
  have L: "\<And>ts. list_str_field E (PList (map PStr ts)) = Some ts"
    and S: "\<And>s. str_field E (PStr s) = Some s"
    and F: "\<And>r. float_field E (PFloat r) = Some r"
    using assms by (simp_all add: pydantic_typed_def)
  show ?thesis
    unfolding heuristic_fallback_value
    by (simp add: respond_def getitem_def bind_exn_def new_ClassifyResponse_def
        L S F del: list.map map_append)
       (simp add: degraded_outcome_def)
qed

lemma degraded_if_try_fails:
  assumes "\<not> list_all isspace (req_text request)" and "pydantic_typed E"
    and "fst (try_body E request []) = Inl e"
  shows "fst (classify E request) = Inr (degraded_outcome (req_text request))"
  using assms by (auto simp: classify_nonblank respond_heuristic split: prod.splits sum.splits)

lemma snd_classify:
  "\<not> list_all isspace (req_text request) \<Longrightarrow> snd (classify E request) = snd (try_body E request [])"
  by (simp add: classify_nonblank split: prod.splits sum.splits)


lemma try_body_no_backend:
  assumes "local_client E = None" and "anthropic_client E = None"
    and "\<not> force_api request" and "\<not> force_local request"
  shows "try_body E request tr = (Inl (HTTPException 503 ''No classification backend configured''), tr)"
  using assms by (simp add: try_body_def)

lemma try_body_local_first:
  assumes "\<not> force_api request" and "\<not> force_local request"
    and "USE_LOCAL_FIRST E" and "local_client E \<noteq> None"
  shows "try_body E request tr = local_first E (req_text request) tr"
  using assms by (simp add: try_body_def)

lemma degraded_hello:
  "degraded_outcome ''hello'' =
     \<lparr>tags = [''uncategorized'', ''transcript'', ''unclassified'', ''short''],
      summary = ''hello'', confidence = 0.3, model = ''heuristic'', fallback_used = True\<rparr>"
  by (simp add: degraded_outcome_def str_split_def isspace_def)








lemma setdefault_non_dict: "\<not> is_dict v \<Longrightarrow> setdefault v k d = Inl (AttributeError ''setdefault'')"
  by (cases v) (simp_all add: is_dict_def setdefault_def)

lemma decode_reply_non_dict:
  assumes "json_loads E (normalize content) = Inr v" and "\<not> is_dict v"
  shows "decode_reply E content = Inl (AttributeError ''setdefault'')"
  using assms by (simp add: decode_reply_def parse_json_response_def loads_or_raise_def bind_exn_def setdefault_non_dict)

subsection \<open>Splitting on whitespace\<close>

text \<open>
  The three equations below determine \<open>str_split\<close> on every string: a blank string has no
  token; otherwise the first token is the first maximal run of characters that are not
  whitespace, and the rest is split in the same way.
\<close>

lemma split_from_spaces:
  "list_all isspace ws \<Longrightarrow> split_from w ws = (if w = [] then [] else [w])"
  by (induction ws arbitrary: w) auto

lemma split_from_skip:
  "list_all isspace ws \<Longrightarrow> split_from [] (ws @ rest) = split_from [] rest"
  by (induction ws) auto

lemma split_from_token:
  "\<forall>c\<in>set t. \<not> isspace c \<Longrightarrow> split_from w (t @ rest) = split_from (w @ t) rest"
  by (induction t arbitrary: w) auto

lemma str_split_blank: "list_all isspace ws \<Longrightarrow> str_split ws = []"
  by (simp add: str_split_def split_from_spaces)

lemma str_split_token:
  assumes "list_all isspace ws" and "t \<noteq> []" and "\<forall>c\<in>set t. \<not> isspace c" and "isspace c"
  shows "str_split (ws @ t @ c # rest) = t # str_split rest"
  using assms by (simp add: str_split_def split_from_skip split_from_token)

lemma str_split_last_token:
  assumes "list_all isspace ws" and "t \<noteq> []" and "\<forall>c\<in>set t. \<not> isspace c"
  shows "str_split (ws @ t) = [t]"
  using assms split_from_token[of t "[]" "[]"] by (simp add: str_split_def split_from_skip)


subsection \<open>How often the adapters are entered\<close>

lemma invocations_Nil: "invocations b [] = 0"
  by (simp add: invocations_def)

lemma classify_with_api_invocations:
  "invocations b (snd (classify_with_api E t tr)) = invocations b tr + (if b = AnthropicAPI then 1 else 0)"
  by (auto simp: classify_with_api_trace invocations_def split: option.splits)

lemma classify_with_local_invocations:
  "invocations b (snd (classify_with_local E t tr)) = invocations b tr + (if b = LocalVLLM then 1 else 0)"
  by (auto simp: classify_with_local_trace invocations_def split: option.splits)

lemma inner_except_trace:
  "snd (inner_except E t e tr) = (if anthropic_client E \<noteq> None then snd (classify_with_api E t tr) else tr)"
  by (auto simp: inner_except_def split: prod.splits sum.splits)

lemma inner_except_invocations:
  "invocations LocalVLLM (snd (inner_except E t e tr)) = invocations LocalVLLM tr"
  "invocations AnthropicAPI (snd (inner_except E t e tr)) \<le> invocations AnthropicAPI tr + 1"
  by (simp_all add: inner_except_trace classify_with_api_invocations)

lemma local_first_invocations:
  "invocations LocalVLLM (snd (local_first E t [])) = 1
   \<and> invocations AnthropicAPI (snd (local_first E t [])) \<le> 2"
proof -
  obtain r1 tr1 where l: "classify_with_local E t [] = (r1, tr1)"
    by (cases "classify_with_local E t []")
  then have t1: "tr1 = snd (classify_with_local E t [])" by simp
  have i1: "invocations LocalVLLM tr1 = 1" "invocations AnthropicAPI tr1 = 0"
    unfolding t1 by (simp_all add: classify_with_local_invocations invocations_Nil)
  obtain r2 tr2 where a: "classify_with_api E t tr1 = (r2, tr2)"
    by (cases "classify_with_api E t tr1")
  then have t2: "tr2 = snd (classify_with_api E t tr1)" by simp
  have i2: "invocations LocalVLLM tr2 = 1" "invocations AnthropicAPI tr2 = 1"
    unfolding t2 by (simp_all add: classify_with_api_invocations i1)
  have e1: "invocations LocalVLLM (snd (inner_except E t e tr1)) = 1"
     "invocations AnthropicAPI (snd (inner_except E t e tr1)) \<le> 2" for e
    using inner_except_invocations[of E t e tr1] i1 by simp_all
  have e2: "invocations LocalVLLM (snd (inner_except E t e tr2)) = 1"
     "invocations AnthropicAPI (snd (inner_except E t e tr2)) \<le> 2" for e
    using inner_except_invocations[of E t e tr2] i2 by simp_all
  show ?thesis
    unfolding local_first_def l
    using i1 i2 e1 e2 a
    by (auto split: sum.splits prod.splits)
qed

lemma invocation_bounds:
  "invocations LocalVLLM (snd (classify E request)) \<le> 1
   \<and> invocations AnthropicAPI (snd (classify E request)) \<le> 2"
proof (cases "list_all isspace (req_text request)")
  case True
  then show ?thesis by (simp add: classify_blank invocations_Nil)
next
  case False
  have a: "snd (case classify_with_api E t [] of
           (Inl e, tr') \<Rightarrow> (Inl e, tr')
         | (Inr result, tr') \<Rightarrow> (Inr (result, m, f), tr')) = snd (classify_with_api E t [])" for t m f
    by (auto split: prod.splits sum.splits)
  have l: "snd (case classify_with_local E t [] of
           (Inl e, tr') \<Rightarrow> (Inl e, tr')
         | (Inr result, tr') \<Rightarrow> (Inr (result, m, f), tr')) = snd (classify_with_local E t [])" for t m f
    by (auto split: prod.splits sum.splits)
  have "invocations LocalVLLM (snd (try_body E request [])) \<le> 1
   \<and> invocations AnthropicAPI (snd (try_body E request [])) \<le> 2"
    using local_first_invocations[of E "req_text request"]
    by (simp add: try_body_def a l classify_with_api_invocations classify_with_local_invocations
        invocations_Nil)
  then show ?thesis using False by (simp add: snd_classify)
qed

subsection \<open>The search for a fenced object\<close>











































section \<open>The degraded responder: what it returns\<close>

text \<open>
  Claim C6. For every input text, with \<open>n\<close> the number of whitespace-separated tokens,
  the degraded responder returns a dictionary of exactly three entries: the tags
  \<open>uncategorized\<close>, \<open>transcript\<close>, \<open>unclassified\<close>, followed by \<open>short\<close> exactly when
  \<open>n < 100\<close> and by \<open>long\<close> exactly when \<open>1000 < n\<close>, at most seven tags in all; the summary,
  the first 50 tokens joined by single spaces, followed by three dots exactly when
  \<open>50 < n\<close>; and the confidence 0.3. The function has no failing branch: it returns this
  value on every text.
\<close>

theorem heuristic_fallback_result:
  "heuristic_fallback text =
     PDict [(''tags'', PList (map PStr
               ([''uncategorized'', ''transcript'', ''unclassified'']
                @ (if length (str_split text) < 100 then [''short''] else [])
                @ (if 1000 < length (str_split text) then [''long''] else [])))),
            (''summary'', PStr (str_join '' '' (take 50 (str_split text))
                @ (if 50 < length (str_split text) then ''...'' else []))),
            (''confidence'', PFloat 0.3)]
   \<and> length ([''uncategorized'', ''transcript'', ''unclassified'']
                @ (if length (str_split text) < 100 then [''short''] else [])
                @ (if 1000 < length (str_split text) then [''long''] else [])) \<le> 7"
  by (simp add: heuristic_fallback_def Let_def min_def)

section \<open>The fallback controller: validation and the force flags\<close>

text \<open>
  Claim C8. When the request text is empty or consists of whitespace only, \<open>classify\<close>
  fails with the HTTP exception of status 400; the list of events is empty, so no adapter
  is entered and nothing is sent; the failure leaves the handler as it is, no degraded
  result takes its place.
\<close>

theorem classify_blank_text:
  "list_all isspace (req_text request) \<Longrightarrow>
     classify E request = (Inl (HTTPException 400 ''Text cannot be empty''), [])"
  by (rule classify_blank)

theorem classify_blank_text_witness:
  "list_all isspace (req_text (plain_request '' \<newline>'' False False))
   \<and> classify (sample_env True (Some (replies ''[1, 2]'')) None) (plain_request '' \<newline>'' False False)
       = (Inl (HTTPException 400 ''Text cannot be empty''), [])"
  using classify_blank_text[of "plain_request '' \<newline>'' False False"
      "sample_env True (Some (replies ''[1, 2]'')) None"]
  by (simp add: plain_request_def isspace_def)



text \<open>
  Claim C5. For a request with \<open>force_api\<close> set and a text that is not blank: when the
  remote adapter fails, be it because no remote client is configured or because the call
  or the decoding of its reply raises, the caller gets the degraded responder's outcome
  (producer \<open>heuristic\<close>, fallback flag set); the local backend is not touched and the
  remote adapter was entered once. (The coercions of pydantic are assumed to pass typed
  values unchanged.)
\<close>

theorem force_api_failure_degrades:
  assumes "force_api request" and "\<not> list_all isspace (req_text request)"
    and "pydantic_typed E"
    and "anthropic_client E = None \<or> (\<exists>e. fst (classify_with_api E (req_text request) []) = Inl e)"
  shows "fst (classify E request) = Inr (degraded_outcome (req_text request))
       \<and> \<not> touches LocalVLLM (snd (classify E request))
       \<and> invocations AnthropicAPI (snd (classify E request)) = 1"
proof -
  have "anthropic_client E = None \<Longrightarrow> \<exists>e. fst (classify_with_api E (req_text request) []) = Inl e"
    by (simp add: classify_with_api_def)
  with assms(4) obtain e where e: "fst (classify_with_api E (req_text request) []) = Inl e"
    by blast
  then have "fst (try_body E request []) = Inl e"
    using assms(1) by (auto simp: try_body_force_api split: prod.splits sum.splits)
  then have a: "fst (classify E request) = Inr (degraded_outcome (req_text request))"
    using assms(2,3) by (rule degraded_if_try_fails[rotated 2])
  have tr: "snd (classify E request) = snd (classify_with_api E (req_text request) [])"
    using assms(1,2) by (simp add: snd_classify try_body_force_api split: prod.splits sum.splits)
  have b: "\<not> touches LocalVLLM (snd (classify E request))"
    by (simp add: tr classify_with_api_trace touches_def split: option.splits)
  have c: "invocations AnthropicAPI (snd (classify E request)) = 1"
    by (simp add: tr classify_with_api_trace invocations_def split: option.splits)
  from a b c show ?thesis by simp
qed

theorem force_api_failure_degrades_witness:
  "force_api (plain_request ''hello'' False True)
   \<and> \<not> list_all isspace (req_text (plain_request ''hello'' False True))
   \<and> pydantic_typed (sample_env True (Some (replies ''[1, 2]'')) None)
   \<and> anthropic_client (sample_env True (Some (replies ''[1, 2]'')) None) = None
   \<and> fst (classify (sample_env True (Some (replies ''[1, 2]'')) None) (plain_request ''hello'' False True))
       = Inr \<lparr>tags = [''uncategorized'', ''transcript'', ''unclassified'', ''short''],
              summary = ''hello'', confidence = 0.3, model = ''heuristic'', fallback_used = True\<rparr>
   \<and> \<not> touches LocalVLLM
         (snd (classify (sample_env True (Some (replies ''[1, 2]'')) None) (plain_request ''hello'' False True)))
   \<and> invocations AnthropicAPI
         (snd (classify (sample_env True (Some (replies ''[1, 2]'')) None) (plain_request ''hello'' False True))) = 1"
proof -
  have t: "pydantic_typed (sample_env True (Some (replies ''[1, 2]'')) None)"
    by (rule sample_typed)
  have n: "anthropic_client (sample_env True (Some (replies ''[1, 2]'')) None) = None"
    by (simp add: sample_env_def)
  have b: "\<not> list_all isspace (req_text (plain_request ''hello'' False True))"
    by (simp add: plain_request_def isspace_def)
  have f: "force_api (plain_request ''hello'' False True)"
    by (simp add: plain_request_def)
  have d: "degraded_outcome (req_text (plain_request ''hello'' False True))
      = \<lparr>tags = [''uncategorized'', ''transcript'', ''unclassified'', ''short''],
              summary = ''hello'', confidence = 0.3, model = ''heuristic'', fallback_used = True\<rparr>"
    by (simp add: plain_request_def degraded_outcome_def str_split_def isspace_def)
  from force_api_failure_degrades[OF f b t disjI1[OF n]] t n b f d show ?thesis
    by simp
qed

section \<open>The fallback controller: backend selection\<close>

text \<open>
  Claim C1 states that a request with a text that is not blank and no force flag, in a
  process with neither backend configured, fails with the HTTP exception of status 503
  and gets no degraded result. The code raises that exception at line 203, inside the
  outer \<^verbatim>\<open>try\<close>, and the handler at line 207 catches every \<^verbatim>\<open>Exception\<close>: the caller
  gets the degraded responder's outcome, and no backend is touched. (The coercions of
  pydantic are assumed to pass typed values unchanged.)
\<close>

theorem no_backend_degrades:
  assumes "local_client E = None" and "anthropic_client E = None"
    and "\<not> force_api request" and "\<not> force_local request"
    and "\<not> list_all isspace (req_text request)" and "pydantic_typed E"
  shows "classify E request = (Inr (degraded_outcome (req_text request)), [])"
  using assms by (simp add: classify_nonblank try_body_no_backend respond_heuristic)

theorem no_backend_degrades_witness:
  "local_client (sample_env False None None) = None
   \<and> anthropic_client (sample_env False None None) = None
   \<and> \<not> force_api (plain_request ''hello'' False False)
   \<and> \<not> force_local (plain_request ''hello'' False False)
   \<and> \<not> list_all isspace (req_text (plain_request ''hello'' False False))
   \<and> pydantic_typed (sample_env False None None)
   \<and> classify (sample_env False None None) (plain_request ''hello'' False False)
       = (Inr \<lparr>tags = [''uncategorized'', ''transcript'', ''unclassified'', ''short''],
               summary = ''hello'', confidence = 0.3, model = ''heuristic'', fallback_used = True\<rparr>, [])"
proof -
  have 1: "local_client (sample_env False None None) = None"
    and 2: "anthropic_client (sample_env False None None) = None"
    and 3: "\<not> force_api (plain_request ''hello'' False False)"
    and 4: "\<not> force_local (plain_request ''hello'' False False)"
    and 5: "\<not> list_all isspace (req_text (plain_request ''hello'' False False))"
    by (simp_all add: sample_env_def plain_request_def isspace_def)
  have 6: "pydantic_typed (sample_env False None None)" by (rule sample_typed)
  have 7: "req_text (plain_request ''hello'' False False) = ''hello''" by (simp add: plain_request_def)
  from no_backend_degrades[OF 1 2 3 4 5 6] 1 2 3 4 5 6 show ?thesis
    unfolding 7 degraded_hello by blast
qed

text \<open>
  Claim C3 states that no backend adapter is entered more than once in a request. The
  call at line 189, made when the local result has a confidence below 0.7, stands inside
  the inner \<^verbatim>\<open>try\<close>; when it raises, the handler at line 192 calls the remote adapter
  again. With a remote client that always fails the remote adapter is entered twice
  before the degraded outcome is returned; with one that fails once the second call
  supplies the outcome.
\<close>

theorem escalation_failure_retries_remote:
  "classify (sample_env True (Some (replies low_reply)) (Some (fails (ClientError ''timeout''))))
      (plain_request ''hello'' False False)
   = (Inr \<lparr>tags = [''uncategorized'', ''transcript'', ''unclassified'', ''short''],
            summary = ''hello'', confidence = 0.3, model = ''heuristic'', fallback_used = True\<rparr>,
      [Invoked LocalVLLM, Sent LocalVLLM (user_message ''hello''),
       Invoked AnthropicAPI, Sent AnthropicAPI (user_message ''hello''),
       Invoked AnthropicAPI, Sent AnthropicAPI (user_message ''hello'')])
   \<and> invocations AnthropicAPI
       (snd (classify (sample_env True (Some (replies low_reply)) (Some (fails (ClientError ''timeout''))))
          (plain_request ''hello'' False False))) = 2
   \<and> classify (sample_env True (Some (replies low_reply))
                 (Some (fails_once (ClientError ''timeout'') good_reply)))
      (plain_request ''hello'' False False)
   = (Inr \<lparr>tags = [''a''], summary = ''s'', confidence = 0.9,
            model = ''claude-3-5-sonnet-20241022'', fallback_used = True\<rparr>,
      [Invoked LocalVLLM, Sent LocalVLLM (user_message ''hello''),
       Invoked AnthropicAPI, Sent AnthropicAPI (user_message ''hello''),
       Invoked AnthropicAPI, Sent AnthropicAPI (user_message ''hello'')])"
  by code_simp

text \<open>
  Claim C4. Local-first enabled, a local client configured, no force flag, a text that
  is not blank, and the local adapter returns a result with confidence \<open>c\<close>. If \<open>c\<close> is a
  number not below 0.7, the outcome is built from the local result, with the local model
  name and the fallback flag clear, and the remote backend is not touched. If \<open>c\<close> is a
  number below 0.7, a remote client is configured and the remote adapter returns a
  result, the outcome is built from the remote result alone, with the remote model name
  and the fallback flag set.
\<close>

theorem local_first_confidence_gate:
  assumes "USE_LOCAL_FIRST E" and "local_client E \<noteq> None"
    and "\<not> force_api request" and "\<not> force_local request"
    and "\<not> list_all isspace (req_text request)"
    and "classify_with_local E (req_text request) [] = (Inr result, tr1)"
    and "getitem result ''confidence'' = Inr c"
  shows "(py_lt c 0.7 = Inr False \<longrightarrow>
            classify E request = (respond E result (LOCAL_MODEL E) False, tr1)
            \<and> \<not> touches AnthropicAPI tr1)
       \<and> (py_lt c 0.7 = Inr True \<and> anthropic_client E \<noteq> None \<longrightarrow>
            (\<forall>result2 tr2. classify_with_api E (req_text request) tr1 = (Inr result2, tr2) \<longrightarrow>
               classify E request = (respond E result2 CLAUDE_MODEL True, tr2)))"
proof -
  have tb: "try_body E request [] = local_first E (req_text request) []"
    using assms(1-4) by (simp add: try_body_local_first)
  have tr1: "tr1 = snd (classify_with_local E (req_text request) [])"
    using assms(6) by simp
  have nt: "\<not> touches AnthropicAPI tr1"
    unfolding tr1 by (simp add: classify_with_local_trace touches_def split: option.splits)
  have a: "classify E request = (respond E result (LOCAL_MODEL E) False, tr1)"
    if "py_lt c 0.7 = Inr False"
    using that assms(5,6,7) by (simp add: classify_nonblank tb local_first_def bind_exn_def)
  have b: "classify E request = (respond E result2 CLAUDE_MODEL True, tr2)"
    if "py_lt c 0.7 = Inr True" and "anthropic_client E \<noteq> None"
      and "classify_with_api E (req_text request) tr1 = (Inr result2, tr2)" for result2 tr2
    using that assms(5,6,7) by (simp add: classify_nonblank tb local_first_def bind_exn_def)
  from a b nt show ?thesis by blast
qed

theorem local_first_confidence_gate_witness:
  "classify (sample_env True (Some (replies good_reply)) (Some (replies low_reply)))
       (plain_request ''hello'' False False)
     = (Inr \<lparr>tags = [''a''], summary = ''s'', confidence = 0.9,
              model = ''Qwen/Qwen2.5-14B-Instruct-AWQ'', fallback_used = False\<rparr>,
        [Invoked LocalVLLM, Sent LocalVLLM (user_message ''hello'')])
   \<and> classify (sample_env True (Some (replies low_reply)) (Some (replies good_reply)))
       (plain_request ''hello'' False False)
     = (Inr \<lparr>tags = [''a''], summary = ''s'', confidence = 0.9,
              model = ''claude-3-5-sonnet-20241022'', fallback_used = True\<rparr>,
        [Invoked LocalVLLM, Sent LocalVLLM (user_message ''hello''),
         Invoked AnthropicAPI, Sent AnthropicAPI (user_message ''hello'')])"
proof -
  let ?r = "plain_request ''hello'' False False"
  let ?E1 = "sample_env True (Some (replies good_reply)) (Some (replies low_reply))"
  let ?E2 = "sample_env True (Some (replies low_reply)) (Some (replies good_reply))"
  let ?R1 = "PDict [(''tags'', PList [PStr ''a'']), (''summary'', PStr ''s''), (''confidence'', PFloat 0.9)]"
  let ?R2 = "PDict [(''tags'', PList [PStr ''b'']), (''summary'', PStr ''t''), (''confidence'', PFloat 0.4)]"
  let ?T1 = "[Invoked LocalVLLM, Sent LocalVLLM (user_message ''hello'')]"
  let ?T2 = "?T1 @ [Invoked AnthropicAPI, Sent AnthropicAPI (user_message ''hello'')]"
  have flags: "\<not> force_api ?r" "\<not> force_local ?r" "\<not> list_all isspace (req_text ?r)"
    by (simp_all add: plain_request_def isspace_def)
  have cfg1: "USE_LOCAL_FIRST ?E1" "local_client ?E1 \<noteq> None"
    and cfg2: "USE_LOCAL_FIRST ?E2" "local_client ?E2 \<noteq> None" "anthropic_client ?E2 \<noteq> None"
    by (simp_all add: sample_env_def)
  have l1: "classify_with_local ?E1 (req_text ?r) [] = (Inr ?R1, ?T1)" by code_simp
  have l2: "classify_with_local ?E2 (req_text ?r) [] = (Inr ?R2, ?T1)" by code_simp
  have a2: "classify_with_api ?E2 (req_text ?r) ?T1 = (Inr ?R1, ?T2)" by code_simp
  have g1: "getitem ?R1 ''confidence'' = Inr (PFloat 0.9)"
    and g2: "getitem ?R2 ''confidence'' = Inr (PFloat 0.4)"
    by (simp_all add: getitem_def)
  have c1: "py_lt (PFloat 0.9) 0.7 = Inr False" and c2: "py_lt (PFloat 0.4) 0.7 = Inr True"
    by (simp_all add: py_lt_def)
  have r1: "respond ?E1 ?R1 (LOCAL_MODEL ?E1) False
      = Inr \<lparr>tags = [''a''], summary = ''s'', confidence = 0.9,
              model = ''Qwen/Qwen2.5-14B-Instruct-AWQ'', fallback_used = False\<rparr>"
    by code_simp
  have r2: "respond ?E2 ?R1 CLAUDE_MODEL True
      = Inr \<lparr>tags = [''a''], summary = ''s'', confidence = 0.9,
              model = ''claude-3-5-sonnet-20241022'', fallback_used = True\<rparr>"
    by code_simp
  from local_first_confidence_gate[OF cfg1 flags l1 g1] c1
  have "classify ?E1 ?r = (respond ?E1 ?R1 (LOCAL_MODEL ?E1) False, ?T1)" by blast
  moreover from local_first_confidence_gate[OF cfg2(1,2) flags l2 g2] c2 cfg2(3) a2
  have "classify ?E2 ?r = (respond ?E2 ?R1 CLAUDE_MODEL True, ?T2)" by blast
  ultimately show ?thesis unfolding r1 r2 by simp
qed

section \<open>The outcome's confidence and tags\<close>




section \<open>Replies that are not objects\<close>

text \<open>
  Claim C10. When the reply of the local backend decodes to a value that is not a
  dictionary (an array, a scalar), the extractor returns that value without raising; the
  adapter then fails in \<^verbatim>\<open>setdefault\<close> with an attribute error, which is not the
  \<^verbatim>\<open>ValueError\<close> of a malformed reply; and for a request with \<open>force_local\<close> set the
  caller still gets the degraded responder's outcome. The witness is a fenced JSON array.
\<close>

theorem non_object_reply:
  assumes "json_loads E (normalize content) = Inr v" and "\<not> is_dict v"
    and "local_client E = Some lc"
    and "lc [Invoked LocalVLLM] (user_message (req_text request)) = Inr content"
    and "force_local request" and "\<not> force_api request"
    and "\<not> list_all isspace (req_text request)" and "pydantic_typed E"
  shows "parse_json_response (json_loads E) content = Inr v
       \<and> fst (classify_with_local E (req_text request) []) = Inl (AttributeError ''setdefault'')
       \<and> fst (classify E request) = Inr (degraded_outcome (req_text request))"
proof -
  have p: "parse_json_response (json_loads E) content = Inr v"
    using assms(1) by (simp add: parse_json_response_def loads_or_raise_def)
  have l: "fst (classify_with_local E (req_text request) []) = Inl (AttributeError ''setdefault'')"
    using assms(3,4) decode_reply_non_dict[OF assms(1,2)]
    by (simp add: classify_with_local_def)
  then have "fst (try_body E request []) = Inl (AttributeError ''setdefault'')"
    using assms(5,6) by (auto simp: try_body_def split: prod.splits sum.splits)
  then have "fst (classify E request) = Inr (degraded_outcome (req_text request))"
    using assms(7,8) by (rule degraded_if_try_fails[rotated 2])
  with p l show ?thesis by simp
qed

theorem non_object_reply_witness:
  "json_loads (sample_env False (Some (replies fenced_array_reply)) None) (normalize fenced_array_reply)
     = Inr (PList [PInt 1, PInt 2])
   \<and> \<not> is_dict (PList [PInt 1, PInt 2])
   \<and> parse_json_response (json_loads (sample_env False (Some (replies fenced_array_reply)) None))
        fenced_array_reply = Inr (PList [PInt 1, PInt 2])
   \<and> fst (classify_with_local (sample_env False (Some (replies fenced_array_reply)) None) ''hello'' [])
       = Inl (AttributeError ''setdefault'')
   \<and> fst (classify (sample_env False (Some (replies fenced_array_reply)) None)
            (plain_request ''hello'' True False))
       = Inr \<lparr>tags = [''uncategorized'', ''transcript'', ''unclassified'', ''short''],
              summary = ''hello'', confidence = 0.3, model = ''heuristic'', fallback_used = True\<rparr>"
proof -
  let ?E = "sample_env False (Some (replies fenced_array_reply)) None"
  let ?r = "plain_request ''hello'' True False"
  have 1: "json_loads ?E (normalize fenced_array_reply) = Inr (PList [PInt 1, PInt 2])" by code_simp
  have 2: "\<not> is_dict (PList [PInt 1, PInt 2])" by (simp add: is_dict_def)
  have 3: "local_client ?E = Some (replies fenced_array_reply)" by (simp add: sample_env_def)
  have 4: "replies fenced_array_reply [Invoked LocalVLLM] (user_message (req_text ?r)) = Inr fenced_array_reply"
    by (simp add: replies_def)
  have 5: "force_local ?r" "\<not> force_api ?r" "\<not> list_all isspace (req_text ?r)"
    by (simp_all add: plain_request_def isspace_def)
  have 6: "pydantic_typed ?E" by (rule sample_typed)
  have 7: "req_text ?r = ''hello''" by (simp add: plain_request_def)
  from non_object_reply[OF 1 2 3 4 5 6] 1 2 show ?thesis
    unfolding 7 degraded_hello by blast
qed

section \<open>The response extractor: fenced replies\<close>



end
